theory Spec2Isabelle
  imports Main "HOL-Library.Sublist"
begin

section \<open>Python strings\<close>

text \<open>
  The agent of \<^verbatim>\<open>src/agent/openai_agent.py\<close> works on Python \<^verbatim>\<open>str\<close> values. A text is
  modelled as a \<^typ>\<open>string\<close> whose characters stand for the code points 0 to 255; on
  this range \<^verbatim>\<open>str.lower\<close> keeps the length, \<^verbatim>\<open>\d\<close> matches the ten ASCII digits only
  and \<^verbatim>\<open>str.strip\<close> removes the twelve white-space code points listed below.
\<close>

definition py_lower_char :: "char \<Rightarrow> char" where
  "py_lower_char c =
     (let n = (of_char c :: nat)
      in if (65 \<le> n \<and> n \<le> 90) \<or> (192 \<le> n \<and> n \<le> 222 \<and> n \<noteq> 215)
         then char_of (n + 32) else c)"

definition py_lower :: "string \<Rightarrow> string" where
  "py_lower s = map py_lower_char s"

text \<open>\<^verbatim>\<open>sub in s\<close>: the text \<open>sub\<close> occurs in \<open>s\<close> as a contiguous block.\<close>

fun py_in :: "string \<Rightarrow> string \<Rightarrow> bool" where
  "py_in sub [] = (sub = [])"
| "py_in sub (c # cs) = (prefix sub (c # cs) \<or> py_in sub cs)"

definition is_digit :: "char \<Rightarrow> bool" where
  "is_digit c = (let n = (of_char c :: nat) in 48 \<le> n \<and> n \<le> 57)"

definition is_space :: "char \<Rightarrow> bool" where
  "is_space c = ((of_char c :: nat) \<in> {9, 10, 11, 12, 13, 28, 29, 30, 31, 32, 133, 160})"

definition py_strip :: "string \<Rightarrow> string" where
  "py_strip s = rev (dropWhile is_space (rev (dropWhile is_space s)))"

text \<open>
  \<^verbatim>\<open>s.split(sep)\<close> for a non-empty separator: the text is cut at the occurrences of
  \<open>sep\<close> found from left to right, none overlapping the one before. \<open>acc\<close> holds the
  current piece, reversed. (Python raises on an empty separator; the agent passes the
  literals \<^verbatim>\<open>"to"\<close> and \<^verbatim>\<open>"for"\<close> only.)
\<close>

function split_from :: "string \<Rightarrow> string \<Rightarrow> string \<Rightarrow> string list" where
  "split_from sep acc [] = [rev acc]"
| "split_from sep acc (c # cs) =
     (if prefix sep (c # cs) then rev acc # split_from sep [] (drop (length sep - 1) cs)
      else split_from sep (c # acc) cs)"
  by pat_completeness auto
termination
  by (relation "measure (\<lambda>(sep, acc, s). length s)") auto

definition py_split :: "string \<Rightarrow> string \<Rightarrow> string list" where
  "py_split sep s = split_from sep [] s"

text \<open>\<^verbatim>\<open>int(digits)\<close> on a run of decimal digits, and \<^verbatim>\<open>str(i)\<close> on an integer.\<close>

definition digit_value :: "char \<Rightarrow> int" where
  "digit_value c = int (of_char c) - 48"

definition py_int :: "string \<Rightarrow> int" where
  "py_int ds = foldl (\<lambda>n c. 10 * n + digit_value c) 0 ds"

fun digits_of :: "nat \<Rightarrow> string" where
  "digits_of n =
     (if n < 10 then [char_of (48 + n)]
      else digits_of (n div 10) @ [char_of (48 + n mod 10)])"

declare digits_of.simps [simp del]

definition py_str_int :: "int \<Rightarrow> string" where
  "py_str_int i = (if i < 0 then CHR ''-'' # digits_of (nat (- i)) else digits_of (nat i))"

text \<open>\<^verbatim>\<open>repr(s)\<close> of a text: the quote is chosen as Python does, and the characters that
  are not printable are written as escapes.\<close>

definition hex_digit :: "nat \<Rightarrow> char" where
  "hex_digit n = (if n < 10 then char_of (48 + n) else char_of (87 + n))"

definition repr_char :: "char \<Rightarrow> char \<Rightarrow> string" where
  "repr_char q c =
     (let n = (of_char c :: nat)
      in if c = q \<or> c = CHR 0x5C then [CHR 0x5C, c]
         else if n = 9 then [CHR 0x5C, CHR ''t'']
         else if n = 10 then [CHR 0x5C, CHR ''n'']
         else if n = 13 then [CHR 0x5C, CHR ''r'']
         else if n < 32 \<or> n = 127 \<or> (128 \<le> n \<and> n \<le> 160) \<or> n = 173
           then [CHR 0x5C, CHR ''x'', hex_digit (n div 16), hex_digit (n mod 16)]
         else [c])"

definition py_repr :: "string \<Rightarrow> string" where
  "py_repr s =
     (let q = (if CHR 0x27 \<in> set s \<and> CHR 0x22 \<notin> set s then CHR 0x22 else CHR 0x27)
      in q # concat (map (repr_char q) s) @ [q])"

subsection \<open>The regular expressions of the agent\<close>

text \<open>
  \<^verbatim>\<open>re.search(r'#(\d+)', s)\<close>: the leftmost \<^verbatim>\<open>#\<close> that a digit follows; group 1 is the
  whole run of digits after it. \<open>None\<close> is no match.
\<close>

fun search_hash_digits :: "string \<Rightarrow> string option" where
  "search_hash_digits [] = None"
| "search_hash_digits (c # cs) =
     (if c = CHR ''#'' \<and> takeWhile is_digit cs \<noteq> [] then Some (takeWhile is_digit cs)
      else search_hash_digits cs)"

text \<open>\<^verbatim>\<open>re.search(r'(pending|in_progress|completed)', s)\<close>: the leftmost place where
  one of the three literals starts; the alternatives are tried in the written order.\<close>

fun search_status :: "string \<Rightarrow> string option" where
  "search_status [] = None"
| "search_status (c # cs) =
     (if prefix ''pending'' (c # cs) then Some ''pending''
      else if prefix ''in_progress'' (c # cs) then Some ''in_progress''
      else if prefix ''completed'' (c # cs) then Some ''completed''
      else search_status cs)"

text \<open>\<^verbatim>\<open>re.search(r"ID (\d+)", s)\<close>, of which the agent only asks whether it matches.\<close>

fun search_ID_digits :: "string \<Rightarrow> string option" where
  "search_ID_digits [] = None"
| "search_ID_digits (c # cs) =
     (if prefix ''ID '' (c # cs) \<and> takeWhile is_digit (drop 2 cs) \<noteq> []
      then Some (takeWhile is_digit (drop 2 cs))
      else search_ID_digits cs)"

section \<open>Persistence model\<close>

text \<open>
  The enumerations and tables of \<^verbatim>\<open>src/models/database_models.py\<close>. An enumeration
  is built from its value (\<^verbatim>\<open>TaskStatus("pending")\<close>), which raises \<^verbatim>\<open>ValueError\<close> on a
  text that is no member's value. The database is the SQLite database that
  \<^verbatim>\<open>src/\<close> configures: its driver raises \<^verbatim>\<open>OverflowError\<close> when it is given an integer
  outside the signed 64-bit range as a parameter of a statement.
\<close>

datatype exn = ValueError string | IntegrityError string | OverflowError string

text \<open>\<^verbatim>\<open>str(e)\<close> of an exception that an executor raises.\<close>

fun str_exn :: "exn \<Rightarrow> string" where
  "str_exn (ValueError m) = m"
| "str_exn (IntegrityError m) = m"
| "str_exn (OverflowError m) = m"

datatype TaskStatus = PENDING | IN_PROGRESS | COMPLETED | CANCELLED

datatype PriorityLevel = LOW | MEDIUM | HIGH | URGENT

datatype RoleType = USER | ASSISTANT | SYSTEM

fun TaskStatus_value :: "TaskStatus \<Rightarrow> string" where
  "TaskStatus_value PENDING = ''pending''"
| "TaskStatus_value IN_PROGRESS = ''in_progress''"
| "TaskStatus_value COMPLETED = ''completed''"
| "TaskStatus_value CANCELLED = ''cancelled''"

definition TaskStatus_of :: "string \<Rightarrow> exn + TaskStatus" where
  "TaskStatus_of s =
     (if s = ''pending'' then Inr PENDING
      else if s = ''in_progress'' then Inr IN_PROGRESS
      else if s = ''completed'' then Inr COMPLETED
      else if s = ''cancelled'' then Inr CANCELLED
      else Inl (ValueError (py_repr s @ '' is not a valid TaskStatus'')))"

definition PriorityLevel_of :: "string \<Rightarrow> exn + PriorityLevel" where
  "PriorityLevel_of s =
     (if s = ''low'' then Inr LOW
      else if s = ''medium'' then Inr MEDIUM
      else if s = ''high'' then Inr HIGH
      else if s = ''urgent'' then Inr URGENT
      else Inl (ValueError (py_repr s @ '' is not a valid PriorityLevel'')))"

definition RoleType_of :: "string \<Rightarrow> exn + RoleType" where
  "RoleType_of s =
     (if s = ''user'' then Inr USER
      else if s = ''assistant'' then Inr ASSISTANT
      else if s = ''system'' then Inr SYSTEM
      else Inl (ValueError (py_repr s @ '' is not a valid RoleType'')))"

type_synonym timestamp = int

record Task =
  task_id :: int
  task_title :: string
  task_description :: "string option"
  task_status :: TaskStatus
  task_priority :: PriorityLevel
  task_created_at :: timestamp
  task_updated_at :: timestamp
  task_conversation_id :: "int option"

record Conversation =
  conv_id :: int
  conv_title :: string
  conv_description :: "string option"
  conv_created_at :: timestamp
  conv_updated_at :: timestamp

record Message =
  msg_id :: int
  msg_content :: string
  msg_role :: RoleType
  msg_timestamp :: timestamp
  msg_created_at :: timestamp
  msg_updated_at :: timestamp
  msg_conversation_id :: int

text \<open>
  The session as the executors see it: the rows of the three tables in the order of
  their insertion, and the clock that \<^verbatim>\<open>datetime.utcnow\<close> reads, given as the sequence
  of its coming readings. Every \<^verbatim>\<open>default_factory\<close> call is one reading. An executor is
  modelled on a session whose earlier commits have succeeded; foreign keys are not
  enforced (the default database of the repository is SQLite).
\<close>

record db_session =
  tasks :: "Task list"
  conversations :: "Conversation list"
  messages :: "Message list"
  clock :: "nat \<Rightarrow> timestamp"

definition utcnow :: "db_session \<Rightarrow> timestamp \<times> db_session" where
  "utcnow db = (clock db 0, db\<lparr>clock := (\<lambda>n. clock db (Suc n))\<rparr>)"

text \<open>\<^verbatim>\<open>select(...).order_by(id.desc()).limit(1)\<close> followed by \<^verbatim>\<open>.first()\<close>, on the
  identifiers of a table.\<close>

fun highest :: "int list \<Rightarrow> int option" where
  "highest [] = None"
| "highest (x # xs) = (case highest xs of None \<Rightarrow> Some x | Some m \<Rightarrow> Some (max x m))"

definition next_id :: "int list \<Rightarrow> int" where
  "next_id ids = (case highest ids of None \<Rightarrow> 1 | Some m \<Rightarrow> m + 1)"

text \<open>The integers that SQLite stores, and the parameters that its driver accepts:
  \<open>None\<close> is bound as \<^verbatim>\<open>NULL\<close>.\<close>

definition sqlite_integer :: "int \<Rightarrow> bool" where
  "sqlite_integer i = (- (2 ^ 63) \<le> i \<and> i < 2 ^ 63)"

definition sqlite_bindable :: "int option \<Rightarrow> bool" where
  "sqlite_bindable key = (case key of None \<Rightarrow> True | Some i \<Rightarrow> sqlite_integer i)"

definition int_too_large :: exn where
  "int_too_large = OverflowError ''Python int too large to convert to SQLite INTEGER''"

text \<open>The row of a table under a key; the key \<open>None\<close> has no row.\<close>

definition get_task_row :: "db_session \<Rightarrow> int option \<Rightarrow> Task option" where
  "get_task_row db key =
     (case key of None \<Rightarrow> None | Some i \<Rightarrow> find (\<lambda>t. task_id t = i) (tasks db))"

definition get_conversation_row :: "db_session \<Rightarrow> int option \<Rightarrow> Conversation option" where
  "get_conversation_row db key =
     (case key of None \<Rightarrow> None | Some i \<Rightarrow> find (\<lambda>c. conv_id c = i) (conversations db))"

text \<open>
  \<^verbatim>\<open>db_session.get(Task, key)\<close> and \<^verbatim>\<open>db_session.get(Conversation, key)\<close>: the key is a
  parameter of the \<^verbatim>\<open>SELECT\<close>, so a key outside the range raises before any row is looked
  for.
\<close>

definition session_get_task :: "db_session \<Rightarrow> int option \<Rightarrow> exn + Task option" where
  "session_get_task db key =
     (if sqlite_bindable key then Inr (get_task_row db key) else Inl int_too_large)"

definition session_get_conversation ::
  "db_session \<Rightarrow> int option \<Rightarrow> exn + Conversation option" where
  "session_get_conversation db key =
     (if sqlite_bindable key then Inr (get_conversation_row db key) else Inl int_too_large)"

text \<open>The row of a task as the session holds it after an assignment to its fields.\<close>

definition put_task :: "db_session \<Rightarrow> Task \<Rightarrow> db_session" where
  "put_task db t =
     db\<lparr>tasks := map (\<lambda>r. if task_id r = task_id t then t else r) (tasks db)\<rparr>"

text \<open>The text an \<^verbatim>\<open>IntegrityError\<close> carries is the database driver's; the model keeps the
  name of the violated constraint.\<close>

definition not_null_failed :: "string \<Rightarrow> exn" where
  "not_null_failed column = IntegrityError (''NOT NULL constraint failed: '' @ column)"

section \<open>Tool registry\<close>

text \<open>
  The arguments of a tool call are a Python dict. The model gives each key of the tool
  schema its declared type; \<open>None\<close> is an absent key. \<^verbatim>\<open>conversation_id\<close> is read by
  the task executors although the schema of the task tools does not list it.
\<close>

record arguments =
  arg_id :: "int option"
  arg_title :: "string option"
  arg_description :: "string option"
  arg_status :: "string option"
  arg_priority :: "string option"
  arg_conversation_id :: "int option"
  arg_content :: "string option"
  arg_role :: "string option"

definition no_arguments :: arguments where
  "no_arguments = \<lparr>arg_id = None, arg_title = None, arg_description = None,
     arg_status = None, arg_priority = None, arg_conversation_id = None,
     arg_content = None, arg_role = None\<rparr>"

datatype payload =
    TaskData Task
  | TaskList "Task list"
  | ConversationData Conversation
  | MessageData Message

text \<open>\<^verbatim>\<open>f"{task_id}"\<close> where \<^verbatim>\<open>task_id\<close> is \<^verbatim>\<open>args.get("id")\<close>.\<close>

definition py_str_key :: "int option \<Rightarrow> string" where
  "py_str_key key = (case key of None \<Rightarrow> ''None'' | Some i \<Rightarrow> py_str_int i)"

definition task_not_found :: "int option \<Rightarrow> exn" where
  "task_not_found key = ValueError (''Task with ID '' @ py_str_key key @ '' not found'')"

definition conversation_not_found :: "int option \<Rightarrow> exn" where
  "conversation_not_found key =
     ValueError (''Conversation with ID '' @ py_str_key key @ '' not found'')"

text \<open>
  The \<^verbatim>\<open>INSERT\<close> of a commit has the new id and the \<^verbatim>\<open>conversation_id\<close> among its
  parameters; the driver checks them before the statement runs, so before the
  \<^verbatim>\<open>NOT NULL\<close> constraints are. A commit that fails adds no row.
\<close>

definition create_task :: "db_session \<Rightarrow> arguments \<Rightarrow> db_session \<times> (exn + payload)" where
  "create_task db args =
     (let new_id = next_id (map task_id (tasks db))
      in case TaskStatus_of (case arg_status args of None \<Rightarrow> ''pending'' | Some s \<Rightarrow> s) of
           Inl e \<Rightarrow> (db, Inl e)
         | Inr st \<Rightarrow>
             (case PriorityLevel_of (case arg_priority args of None \<Rightarrow> ''medium'' | Some p \<Rightarrow> p) of
                Inl e \<Rightarrow> (db, Inl e)
              | Inr pr \<Rightarrow>
                  (let (t1, db1) = utcnow db;
                       (t2, db2) = utcnow db1
                   in if \<not> sqlite_integer new_id \<or> \<not> sqlite_bindable (arg_conversation_id args)
                      then (db2, Inl int_too_large)
                      else case arg_title args of
                        None \<Rightarrow> (db2, Inl (not_null_failed ''task.title''))
                      | Some ttl \<Rightarrow>
                          (let task = \<lparr>task_id = new_id, task_title = ttl,
                                 task_description =
                                   Some (case arg_description args of None \<Rightarrow> [] | Some d \<Rightarrow> d),
                                 task_status = st, task_priority = pr,
                                 task_created_at = t1, task_updated_at = t2,
                                 task_conversation_id = arg_conversation_id args\<rparr>
                           in (db2\<lparr>tasks := tasks db2 @ [task]\<rparr>, Inr (TaskData task))))))"

text \<open>
  \<^verbatim>\<open>_update_task\<close> assigns the fields one after the other. When \<^verbatim>\<open>TaskStatus(...)\<close> or
  \<^verbatim>\<open>PriorityLevel(...)\<close> raises, the assignments made before it stay on the object that
  the session holds. The \<^verbatim>\<open>UPDATE\<close> of the commit has the new \<^verbatim>\<open>conversation_id\<close> as a
  parameter; when the driver refuses it, the transaction is rolled back and the rows are
  as before.
\<close>

definition update_task :: "db_session \<Rightarrow> arguments \<Rightarrow> db_session \<times> (exn + payload)" where
  "update_task db args =
     (case session_get_task db (arg_id args) of
        Inl e \<Rightarrow> (db, Inl e)
      | Inr None \<Rightarrow> (db, Inl (task_not_found (arg_id args)))
      | Inr (Some task) \<Rightarrow>
          (let t1 = (case arg_title args of None \<Rightarrow> task | Some v \<Rightarrow> task\<lparr>task_title := v\<rparr>);
               t2 = (case arg_description args of None \<Rightarrow> t1
                     | Some v \<Rightarrow> t1\<lparr>task_description := Some v\<rparr>)
           in case (case arg_status args of None \<Rightarrow> Inr t2
                    | Some s \<Rightarrow> (case TaskStatus_of s of Inl e \<Rightarrow> Inl e
                                 | Inr st \<Rightarrow> Inr (t2\<lparr>task_status := st\<rparr>))) of
                Inl e \<Rightarrow> (put_task db t2, Inl e)
              | Inr t3 \<Rightarrow>
                  (case (case arg_priority args of None \<Rightarrow> Inr t3
                         | Some p \<Rightarrow> (case PriorityLevel_of p of Inl e \<Rightarrow> Inl e
                                      | Inr pr \<Rightarrow> Inr (t3\<lparr>task_priority := pr\<rparr>))) of
                     Inl e \<Rightarrow> (put_task db t3, Inl e)
                   | Inr t4 \<Rightarrow>
                       (let t5 = (case arg_conversation_id args of None \<Rightarrow> t4
                                  | Some c \<Rightarrow> t4\<lparr>task_conversation_id := Some c\<rparr>)
                        in if sqlite_bindable (arg_conversation_id args)
                           then (put_task db t5, Inr (TaskData t5))
                           else (db, Inl int_too_large)))))"

definition delete_task :: "db_session \<Rightarrow> arguments \<Rightarrow> db_session \<times> (exn + payload)" where
  "delete_task db args =
     (case session_get_task db (arg_id args) of
        Inl e \<Rightarrow> (db, Inl e)
      | Inr None \<Rightarrow> (db, Inl (task_not_found (arg_id args)))
      | Inr (Some task) \<Rightarrow>
          (db\<lparr>tasks := filter (\<lambda>r. task_id r \<noteq> task_id task) (tasks db)\<rparr>,
           Inr (TaskData task)))"

definition get_task :: "db_session \<Rightarrow> arguments \<Rightarrow> db_session \<times> (exn + payload)" where
  "get_task db args =
     (case session_get_task db (arg_id args) of
        Inl e \<Rightarrow> (db, Inl e)
      | Inr None \<Rightarrow> (db, Inl (task_not_found (arg_id args)))
      | Inr (Some task) \<Rightarrow> (db, Inr (TaskData task)))"

definition list_tasks :: "db_session \<Rightarrow> arguments \<Rightarrow> db_session \<times> (exn + payload)" where
  "list_tasks db args =
     (case arg_status args of
        None \<Rightarrow> (db, Inr (TaskList (tasks db)))
      | Some s \<Rightarrow>
          (if s = [] then (db, Inr (TaskList (tasks db)))
           else case TaskStatus_of s of
                  Inl e \<Rightarrow> (db, Inl e)
                | Inr st \<Rightarrow> (db, Inr (TaskList (filter (\<lambda>t. task_status t = st) (tasks db))))))"

definition create_conversation ::
  "db_session \<Rightarrow> arguments \<Rightarrow> db_session \<times> (exn + payload)" where
  "create_conversation db args =
     (let new_id = next_id (map conv_id (conversations db));
          (t1, db1) = utcnow db;
          (t2, db2) = utcnow db1
      in if \<not> sqlite_integer new_id then (db2, Inl int_too_large)
         else case arg_title args of
           None \<Rightarrow> (db2, Inl (not_null_failed ''conversation.title''))
         | Some ttl \<Rightarrow>
             (let conv = \<lparr>conv_id = new_id, conv_title = ttl,
                    conv_description =
                      Some (case arg_description args of None \<Rightarrow> [] | Some d \<Rightarrow> d),
                    conv_created_at = t1, conv_updated_at = t2\<rparr>
              in (db2\<lparr>conversations := conversations db2 @ [conv]\<rparr>,
                  Inr (ConversationData conv))))"

definition add_message :: "db_session \<Rightarrow> arguments \<Rightarrow> db_session \<times> (exn + payload)" where
  "add_message db args =
     (let new_id = next_id (map msg_id (messages db))
      in case session_get_conversation db (arg_conversation_id args) of
           Inl e \<Rightarrow> (db, Inl e)
         | Inr None \<Rightarrow> (db, Inl (conversation_not_found (arg_conversation_id args)))
         | Inr (Some conv) \<Rightarrow>
             (case RoleType_of (case arg_role args of None \<Rightarrow> ''user'' | Some r \<Rightarrow> r) of
                Inl e \<Rightarrow> (db, Inl e)
              | Inr role \<Rightarrow>
                  (let (t1, db1) = utcnow db;
                       (t2, db2) = utcnow db1;
                       (t3, db3) = utcnow db2
                   in if \<not> sqlite_integer new_id then (db3, Inl int_too_large)
                      else case arg_content args of
                        None \<Rightarrow> (db3, Inl (not_null_failed ''message.content''))
                      | Some txt \<Rightarrow>
                          (let msg = \<lparr>msg_id = new_id, msg_content = txt, msg_role = role,
                                 msg_timestamp = t1, msg_created_at = t2, msg_updated_at = t3,
                                 msg_conversation_id = conv_id conv\<rparr>
                           in (db3\<lparr>messages := messages db3 @ [msg]\<rparr>,
                               Inr (MessageData msg))))))"

definition get_conversation ::
  "db_session \<Rightarrow> arguments \<Rightarrow> db_session \<times> (exn + payload)" where
  "get_conversation db args =
     (case session_get_conversation db (arg_id args) of
        Inl e \<Rightarrow> (db, Inl e)
      | Inr None \<Rightarrow> (db, Inl (conversation_not_found (arg_id args)))
      | Inr (Some conv) \<Rightarrow> (db, Inr (ConversationData conv)))"

datatype ToolResult = SUCCESS | ERROR | NOT_FOUND | PERMISSION_DENIED

fun ToolResult_value :: "ToolResult \<Rightarrow> string" where
  "ToolResult_value SUCCESS = ''success''"
| "ToolResult_value ERROR = ''error''"
| "ToolResult_value NOT_FOUND = ''not_found''"
| "ToolResult_value PERMISSION_DENIED = ''permission_denied''"

text \<open>The dict that \<^verbatim>\<open>execute_tool\<close> returns; \<open>data = None\<close> is Python's \<^verbatim>\<open>None\<close>.\<close>

record tool_result =
  result :: string
  message :: string
  data :: "payload option"

definition available_tools ::
  "(string \<times> (db_session \<Rightarrow> arguments \<Rightarrow> db_session \<times> (exn + payload))) list" where
  "available_tools =
     [(''create_task'', create_task),
      (''update_task'', update_task),
      (''delete_task'', delete_task),
      (''get_task'', get_task),
      (''list_tasks'', list_tasks),
      (''create_conversation'', create_conversation),
      (''add_message'', add_message),
      (''get_conversation'', get_conversation)]"

definition execute_tool ::
  "db_session \<Rightarrow> string \<Rightarrow> arguments \<Rightarrow> db_session \<times> tool_result" where
  "execute_tool db tool_name args =
     (case map_of available_tools tool_name of
        None \<Rightarrow>
          (db, \<lparr>result = ToolResult_value NOT_FOUND,
                message = ''Tool '' @ [CHR 0x27] @ tool_name @ [CHR 0x27] @ '' not found'',
                data = None\<rparr>)
      | Some executor \<Rightarrow>
          (case executor db args of
             (db', Inr r) \<Rightarrow>
               (db', \<lparr>result = ToolResult_value SUCCESS,
                      message = ''Tool executed successfully'',
                      data = Some r\<rparr>)
           | (db', Inl e) \<Rightarrow>
               (db', \<lparr>result = ToolResult_value ERROR, message = str_exn e, data = None\<rparr>)))"

section \<open>The agent\<close>

record ToolCall =
  call_name :: string
  call_arguments :: arguments

record AgentResponse =
  resp_message :: string
  resp_tool_calls :: "ToolCall list"
  resp_needs_confirmation :: bool
  resp_confirmation_message :: "string option"

text \<open>An exception that nothing in the agent catches.\<close>

datatype uncaught = IndexError | AttributeError

subsection \<open>Confirmation gate\<close>

definition needs_confirmation :: "string \<Rightarrow> bool" where
  "needs_confirmation tool_name = (tool_name \<in> set [''delete_task'', ''update_task''])"

text \<open>
  \<^verbatim>\<open>arguments.items()\<close>. A dict yields its keys in the order of their insertion, which the
  record does not keep: the model yields the keys that are present in the order of the
  tool schema, which is the order of every dict that \<^verbatim>\<open>process_request\<close> builds.
\<close>

datatype pyval = VInt int | VStr string

fun py_str_val :: "pyval \<Rightarrow> string" where
  "py_str_val (VInt i) = py_str_int i"
| "py_str_val (VStr s) = s"

fun py_repr_val :: "pyval \<Rightarrow> string" where
  "py_repr_val (VInt i) = py_str_int i"
| "py_repr_val (VStr s) = py_repr s"

definition items :: "arguments \<Rightarrow> (string \<times> pyval) list" where
  "items args =
     List.map_filter (\<lambda>(k, v). map_option (\<lambda>x. (k, x)) v)
       [(''id'', map_option VInt (arg_id args)),
        (''title'', map_option VStr (arg_title args)),
        (''description'', map_option VStr (arg_description args)),
        (''status'', map_option VStr (arg_status args)),
        (''priority'', map_option VStr (arg_priority args)),
        (''conversation_id'', map_option VInt (arg_conversation_id args)),
        (''content'', map_option VStr (arg_content args)),
        (''role'', map_option VStr (arg_role args))]"

fun py_join :: "string \<Rightarrow> string list \<Rightarrow> string" where
  "py_join sep [] = []"
| "py_join sep [x] = x"
| "py_join sep (x # y # ys) = x @ sep @ py_join sep (y # ys)"

definition py_repr_dict :: "(string \<times> pyval) list \<Rightarrow> string" where
  "py_repr_dict kvs =
     ''{'' @ py_join '', '' (map (\<lambda>(k, v). py_repr k @ '': '' @ py_repr_val v) kvs) @ ''}''"

definition format_confirmation_message :: "ToolCall \<Rightarrow> string" where
  "format_confirmation_message tool_call =
     (if call_name tool_call = ''delete_task''
      then ''I'm about to delete task #'' @ py_str_key (arg_id (call_arguments tool_call))
             @ ''. Is that OK?''
      else if call_name tool_call = ''update_task''
      then (let tid = arg_id (call_arguments tool_call);
                updates = py_join '', ''
                  (map (\<lambda>(k, v). k @ ''='' @ py_str_val v)
                     (filter (\<lambda>(k, v). k \<noteq> ''id'') (items (call_arguments tool_call))))
            in ''I'm about to update task #'' @ py_str_key tid @ '' with '' @ updates
                 @ ''. Is that OK?'')
      else ''I'm about to execute '' @ [CHR 0x27] @ call_name tool_call @ [CHR 0x27]
             @ '' with arguments '' @ py_repr_dict (items (call_arguments tool_call))
             @ ''. Please confirm.'')"

subsection \<open>Intent resolver\<close>

text \<open>\<^verbatim>\<open>xs[1]\<close>, which raises \<^verbatim>\<open>IndexError\<close> on a list of fewer than two elements.\<close>

definition index1 :: "'a list \<Rightarrow> uncaught + 'a" where
  "index1 xs = (case xs of a # b # _ \<Rightarrow> Inr b | _ \<Rightarrow> Inl IndexError)"

text \<open>The \<^verbatim>\<open>if\<close>/\<^verbatim>\<open>elif\<close> chain of \<^verbatim>\<open>process_request\<close>, on the lower-cased input: the
  list \<^verbatim>\<open>tool_calls\<close> it builds.\<close>

definition resolve_tool_calls :: "string \<Rightarrow> uncaught + ToolCall list" where
  "resolve_tool_calls user_input_lower =
     (if py_in ''create'' user_input_lower
           \<and> (py_in ''task'' user_input_lower \<or> py_in ''new'' user_input_lower)
      then
        (case (if py_in ''to'' user_input_lower
               then map_sum id py_strip (index1 (py_split ''to'' user_input_lower))
               else if py_in ''for'' user_input_lower
               then map_sum id py_strip (index1 (py_split ''for'' user_input_lower))
               else Inr ''New task'') of
           Inl e \<Rightarrow> Inl e
         | Inr title \<Rightarrow>
             Inr [\<lparr>call_name = ''create_task'',
                   call_arguments = no_arguments\<lparr>arg_title := Some title,
                                                  arg_status := Some ''pending''\<rparr>\<rparr>])
      else if py_in ''update'' user_input_lower \<and> py_in ''task'' user_input_lower
      then
        (let id_match = search_hash_digits user_input_lower;
             status_match = search_status user_input_lower
         in case id_match of
              None \<Rightarrow> Inr []
            | Some ds \<Rightarrow>
                (let tid = py_int ds;
                     status = (case status_match of Some s \<Rightarrow> s | None \<Rightarrow> ''in_progress'')
                 in Inr [\<lparr>call_name = ''update_task'',
                          call_arguments = no_arguments\<lparr>arg_id := Some tid,
                                                         arg_status := Some status\<rparr>\<rparr>]))
      else if py_in ''delete'' user_input_lower \<and> py_in ''task'' user_input_lower
      then
        (case search_hash_digits user_input_lower of
           None \<Rightarrow> Inr []
         | Some ds \<Rightarrow>
             Inr [\<lparr>call_name = ''delete_task'',
                   call_arguments = no_arguments\<lparr>arg_id := Some (py_int ds)\<rparr>\<rparr>])
      else if py_in ''show'' user_input_lower \<or> py_in ''list'' user_input_lower
                \<or> py_in ''all'' user_input_lower
      then
        (let status =
               (if py_in ''pending'' user_input_lower then Some ''pending''
                else if py_in ''in progress'' user_input_lower
                          \<or> py_in ''in_progress'' user_input_lower then Some ''in_progress''
                else if py_in ''completed'' user_input_lower then Some ''completed''
                else None)
         in Inr [\<lparr>call_name = ''list_tasks'',
                  call_arguments = no_arguments\<lparr>arg_status := status\<rparr>\<rparr>])
      else if (py_in ''get'' user_input_lower \<or> py_in ''show'' user_input_lower
                 \<or> py_in ''what'' user_input_lower) \<and> py_in ''task'' user_input_lower
      then
        (case search_hash_digits user_input_lower of
           None \<Rightarrow> Inr []
         | Some ds \<Rightarrow>
             Inr [\<lparr>call_name = ''get_task'',
                   call_arguments = no_arguments\<lparr>arg_id := Some (py_int ds)\<rparr>\<rparr>])
      else Inr [])"

definition process_request :: "string \<Rightarrow> uncaught + AgentResponse" where
  "process_request user_input =
     (let user_input_lower = py_lower user_input
      in case resolve_tool_calls user_input_lower of
           Inl e \<Rightarrow> Inl e
         | Inr tool_calls \<Rightarrow>
             (let needs = list_ex (\<lambda>tc. needs_confirmation (call_name tc)) tool_calls;
                  confirmation_message =
                    (if needs \<and> tool_calls \<noteq> []
                     then map_option format_confirmation_message
                            (find (\<lambda>tc. needs_confirmation (call_name tc)) tool_calls)
                     else None)
              in Inr \<lparr>resp_message =
                         (if tool_calls \<noteq> [] then ''Processing your request...''
                          else ''I'm not sure how to help with that.''),
                       resp_tool_calls = tool_calls,
                       resp_needs_confirmation = needs,
                       resp_confirmation_message = confirmation_message\<rparr>))"

subsection \<open>Execution\<close>

text \<open>
  One entry of the list that \<^verbatim>\<open>execute_tool_calls_with_session\<close> returns: the dict of
  \<^verbatim>\<open>execute_tool\<close> with the key \<^verbatim>\<open>tool_name\<close> added. The placeholder of a call that
  awaits confirmation has no \<^verbatim>\<open>data\<close> key, which is \<open>data = None\<close> here too.
\<close>

record call_result = tool_result +
  tool_name :: string

text \<open>
  \<^verbatim>\<open>confirm_execution\<close> is the flag of the source: \<open>True\<close> holds back the calls that the
  gate flags, \<open>False\<close> (the caller's bypass) runs every call. \<^verbatim>\<open>execute_tool_calls\<close> is the
  same loop on the session of the agent itself.
\<close>

fun execute_tool_calls_with_session ::
  "ToolCall list \<Rightarrow> db_session \<Rightarrow> bool \<Rightarrow> db_session \<times> call_result list" where
  "execute_tool_calls_with_session [] db_session confirm_execution = (db_session, [])"
| "execute_tool_calls_with_session (tool_call # rest) db_session confirm_execution =
     (if confirm_execution \<and> needs_confirmation (call_name tool_call)
      then (let (db', results) =
                  execute_tool_calls_with_session rest db_session confirm_execution
            in (db', \<lparr>result = ''pending_confirmation'',
                      message = ''Action '' @ [CHR 0x27] @ call_name tool_call @ [CHR 0x27]
                                  @ '' requires confirmation'',
                      data = None,
                      tool_name = call_name tool_call\<rparr> # results))
      else (let (db1, r) =
                  execute_tool db_session (call_name tool_call) (call_arguments tool_call);
                (db2, results) = execute_tool_calls_with_session rest db1 confirm_execution
            in (db2, \<lparr>result = result r, message = message r, data = data r,
                      tool_name = call_name tool_call\<rparr> # results)))"

subsection \<open>Response formatter\<close>

definition suggest_alternatives :: "string \<Rightarrow> string" where
  "suggest_alternatives msg =
     (case search_ID_digits msg of
        Some ds \<Rightarrow> ''Would you like me to list all tasks so you can find the right one?''
      | None \<Rightarrow> ''Would you like me to help you with something else?'')"

text \<open>
  The attribute reads of \<^verbatim>\<open>_format_results\<close> on the payload of a successful call. Python
  reads an attribute from whatever object carries it, and raises \<^verbatim>\<open>AttributeError\<close>
  otherwise.
\<close>

definition task_line :: "Task \<Rightarrow> string" where
  "task_line task =
     py_str_int (task_id task) @ '': '' @ task_title task
       @ '' ('' @ TaskStatus_value (task_status task) @ '')''"

definition payload_title :: "payload option \<Rightarrow> uncaught + string" where
  "payload_title d =
     (case d of
        Some (TaskData t) \<Rightarrow> Inr (task_title t)
      | Some (ConversationData c) \<Rightarrow> Inr (conv_title c)
      | _ \<Rightarrow> Inl AttributeError)"

definition payload_conversation_id :: "payload option \<Rightarrow> uncaught + string" where
  "payload_conversation_id d =
     (case d of
        Some (MessageData m) \<Rightarrow> Inr (py_str_int (msg_conversation_id m))
      | Some (TaskData t) \<Rightarrow> Inr (py_str_key (task_conversation_id t))
      | _ \<Rightarrow> Inl AttributeError)"

definition format_result :: "call_result \<Rightarrow> uncaught + string" where
  "format_result r =
     (let result_status = result r
      in if result_status = ToolResult_value SUCCESS then
           (if tool_name r = ''list_tasks'' then
              (case data r of
                 None \<Rightarrow> Inr ''No tasks found.''
               | Some (TaskList ts) \<Rightarrow>
                   (if ts \<noteq> []
                    then Inr (''Here are the tasks:'' @ [CHR 0x0A]
                              @ py_join [CHR 0x0A] (map (\<lambda>t. ''- '' @ task_line t) ts))
                    else Inr ''No tasks found.'')
               | Some _ \<Rightarrow> Inl AttributeError)
            else if tool_name r = ''get_task'' then
              (case data r of
                 Some (TaskData t) \<Rightarrow> Inr (''Task #'' @ task_line t)
               | _ \<Rightarrow> Inl AttributeError)
            else if tool_name r \<in> set [''create_task'', ''update_task''] then
              map_sum id (\<lambda>t. ''Task updated successfully: '' @ t) (payload_title (data r))
            else if tool_name r = ''delete_task'' then
              map_sum id (\<lambda>t. ''Task deleted: '' @ t) (payload_title (data r))
            else if tool_name r = ''create_conversation'' then
              map_sum id (\<lambda>t. ''Conversation created: '' @ t) (payload_title (data r))
            else if tool_name r = ''get_conversation'' then
              map_sum id (\<lambda>t. ''Conversation: '' @ t) (payload_title (data r))
            else if tool_name r = ''add_message'' then
              map_sum id (\<lambda>c. ''Message added to conversation #'' @ c)
                (payload_conversation_id (data r))
            else Inr (message r))
         else if result_status = ToolResult_value NOT_FOUND then
           (if py_in ''task'' (tool_name r) \<and> py_in ''not found'' (py_lower (message r))
            then Inr (''I couldn't find that task. '' @ suggest_alternatives (message r))
            else Inr (''Sorry, '' @ message r))
         else if result_status = ToolResult_value ERROR then
           Inr (''Sorry, I encountered an error: '' @ message r)
         else Inr (message r))"

fun format_each :: "call_result list \<Rightarrow> uncaught + string list" where
  "format_each [] = Inr []"
| "format_each (r # rs) =
     (case format_result r of
        Inl e \<Rightarrow> Inl e
      | Inr m \<Rightarrow> (case format_each rs of Inl e \<Rightarrow> Inl e | Inr ms \<Rightarrow> Inr (m # ms)))"

definition format_results :: "call_result list \<Rightarrow> uncaught + string" where
  "format_results results =
     (case format_each results of
        Inl e \<Rightarrow> Inl e
      | Inr msgs \<Rightarrow>
          Inr (if msgs \<noteq> [] then py_join '' '' msgs else ''Operation completed.''))"

subsection \<open>A whole request\<close>

definition handle_user_request ::
  "string \<Rightarrow> bool \<Rightarrow> db_session \<Rightarrow> db_session \<times> (uncaught + string)" where
  "handle_user_request user_input confirm_actions db_session =
     (case process_request user_input of
        Inl e \<Rightarrow> (db_session, Inl e)
      | Inr agent_response \<Rightarrow>
          (if resp_needs_confirmation agent_response \<and> confirm_actions
           then (db_session,
                 Inr (case resp_confirmation_message agent_response of
                        Some m \<Rightarrow> if m \<noteq> [] then m else resp_message agent_response
                      | None \<Rightarrow> resp_message agent_response))
           else if resp_needs_confirmation agent_response \<or> resp_tool_calls agent_response \<noteq> []
           then (let (db', results) =
                       execute_tool_calls_with_session (resp_tool_calls agent_response)
                         db_session False
                 in (db', format_results results))
           else (db_session, Inr (resp_message agent_response))))"

section \<open>Sample sessions\<close>

text \<open>Concrete sessions and arguments on which the theorems below are instantiated.\<close>

definition empty_session :: db_session where
  "empty_session = \<lparr>tasks = [], conversations = [], messages = [], clock = (\<lambda>n. int n)\<rparr>"

definition sample_task :: Task where
  "sample_task = \<lparr>task_id = 1, task_title = ''Test task'', task_description = Some [],
     task_status = PENDING, task_priority = MEDIUM, task_created_at = 100,
     task_updated_at = 101, task_conversation_id = None\<rparr>"

definition one_task_session :: db_session where
  "one_task_session =
     \<lparr>tasks = [sample_task], conversations = [], messages = [], clock = (\<lambda>n. int n)\<rparr>"

definition buy_milk :: arguments where
  "buy_milk = no_arguments\<lparr>arg_title := Some ''Buy milk''\<rparr>"

definition milk_task :: Task where
  "milk_task = \<lparr>task_id = 1, task_title = ''Buy milk'', task_description = Some [],
     task_status = PENDING, task_priority = MEDIUM, task_created_at = 0,
     task_updated_at = 1, task_conversation_id = None\<rparr>"

definition rename_first :: arguments where
  "rename_first = no_arguments\<lparr>arg_id := Some 1, arg_title := Some ''Renamed''\<rparr>"

section \<open>Properties of the text operations\<close>

lemma py_in_iff: "py_in sub s \<longleftrightarrow> (\<exists>a b. s = a @ sub @ b)"
proof (induction s)
  case Nil
  then show ?case by auto
next
  case (Cons c cs)
  show ?case
  proof
    assume "py_in sub (c # cs)"
    then consider "prefix sub (c # cs)" | "py_in sub cs" by auto
    then show "\<exists>a b. c # cs = a @ sub @ b"
    proof cases
      case 1
      then obtain b where "c # cs = sub @ b" by (auto simp: prefix_def)
      then have "c # cs = [] @ sub @ b" by simp
      then show ?thesis by blast
    next
      case 2
      with Cons.IH obtain a b where "cs = a @ sub @ b" by blast
      then have "c # cs = (c # a) @ sub @ b" by simp
      then show ?thesis by blast
    qed
  next
    assume "\<exists>a b. c # cs = a @ sub @ b"
    then obtain a b where ab: "c # cs = a @ sub @ b" by blast
    show "py_in sub (c # cs)"
    proof (cases a)
      case Nil
      with ab have "prefix sub (c # cs)" by (simp add: prefix_def)
      then show ?thesis by simp
    next
      case (Cons x a')
      with ab have "cs = a' @ sub @ b" by simp
      with Cons.IH have "py_in sub cs" by blast
      then show ?thesis by simp
    qed
  qed
qed

lemma py_in_appendI: "py_in sub (a @ sub @ b)"
  by (auto simp: py_in_iff)

section \<open>The tool registry\<close>

lemma execute_tool_unregistered:
  "map_of available_tools name = None \<Longrightarrow>
   execute_tool db name args =
     (db, \<lparr>result = ToolResult_value NOT_FOUND,
           message = ''Tool '' @ [CHR 0x27] @ name @ [CHR 0x27] @ '' not found'', data = None\<rparr>)"
  by (simp add: execute_tool_def)

lemma execute_tool_raises:
  "map_of available_tools name = Some f \<Longrightarrow> f db args = (db', Inl e) \<Longrightarrow>
   execute_tool db name args =
     (db', \<lparr>result = ToolResult_value ERROR, message = str_exn e, data = None\<rparr>)"
  by (simp add: execute_tool_def)

lemma execute_tool_returns:
  "map_of available_tools name = Some f \<Longrightarrow> f db args = (db', Inr v) \<Longrightarrow>
   execute_tool db name args =
     (db', \<lparr>result = ToolResult_value SUCCESS, message = ''Tool executed successfully'',
            data = Some v\<rparr>)"
  by (simp add: execute_tool_def)

lemma registered_iff:
  "map_of available_tools name = None \<longleftrightarrow>
   name \<notin> set [''create_task'', ''update_task'', ''delete_task'', ''get_task'', ''list_tasks'',
               ''create_conversation'', ''add_message'', ''get_conversation'']"
  by (simp add: available_tools_def)

lemma registered_task_tools:
  "map_of available_tools ''update_task'' = Some update_task"
  "map_of available_tools ''get_task'' = Some get_task"
  "map_of available_tools ''delete_task'' = Some delete_task"
  "map_of available_tools ''create_task'' = Some create_task"
  by (simp_all add: available_tools_def)

lemma session_get_task_bindable:
  "sqlite_bindable key \<Longrightarrow> session_get_task db key = Inr (get_task_row db key)"
  by (simp add: session_get_task_def)

lemma session_get_task_overflow:
  "\<not> sqlite_bindable key \<Longrightarrow> session_get_task db key = Inl int_too_large"
  by (simp add: session_get_task_def)

lemma sqlite_bindable_Some: "sqlite_bindable (Some i) = sqlite_integer i"
  by (simp add: sqlite_bindable_def)

lemma sqlite_bindable_None: "sqlite_bindable None"
  by (simp add: sqlite_bindable_def)

lemma sqlite_integer_999: "sqlite_integer 999"
  by (simp add: sqlite_integer_def)

lemma absent_task_raises:
  assumes "get_task_row db key = None" and "arg_id args' = key" and "sqlite_bindable key"
  shows "update_task db args' = (db, Inl (task_not_found key))"
    and "get_task db args' = (db, Inl (task_not_found key))"
    and "delete_task db args' = (db, Inl (task_not_found key))"
  using assms
  by (simp_all add: update_task_def get_task_def delete_task_def session_get_task_bindable)

lemma unbindable_key_raises:
  assumes "\<not> sqlite_bindable (arg_id args')"
  shows "update_task db args' = (db, Inl int_too_large)"
    and "get_task db args' = (db, Inl int_too_large)"
    and "delete_task db args' = (db, Inl int_too_large)"
  using assms
  by (simp_all add: update_task_def get_task_def delete_task_def session_get_task_overflow)

lemma py_str_int_999: "py_str_int 999 = ''999''"
  by code_simp

text \<open>
  C5. \<^verbatim>\<open>execute_tool\<close> turns every outcome into one of three results: \<open>not_found\<close>
  exactly when the name is none of the eight registered tools; \<open>error\<close> with the text of
  the exception and no data when the executor of the name raises; \<open>success\<close> with the
  executor's value as data when it returns. No outcome of an executor is left as an
  exception.
\<close>

theorem execute_tool_tri_state:
  "(result (snd (execute_tool db name args)) = ToolResult_value NOT_FOUND \<longleftrightarrow>
      name \<notin> set [''create_task'', ''update_task'', ''delete_task'', ''get_task'',
                   ''list_tasks'', ''create_conversation'', ''add_message'',
                   ''get_conversation''])
   \<and> (\<forall>f db' e. map_of available_tools name = Some f \<and> f db args = (db', Inl e) \<longrightarrow>
         execute_tool db name args =
           (db', \<lparr>result = ToolResult_value ERROR, message = str_exn e, data = None\<rparr>))
   \<and> (\<forall>f db' v. map_of available_tools name = Some f \<and> f db args = (db', Inr v) \<longrightarrow>
         execute_tool db name args =
           (db', \<lparr>result = ToolResult_value SUCCESS,
                  message = ''Tool executed successfully'', data = Some v\<rparr>))
   \<and> result (snd (execute_tool db name args)) \<in>
        {ToolResult_value SUCCESS, ToolResult_value ERROR, ToolResult_value NOT_FOUND}"
proof -
  have nf: "result (snd (execute_tool db name args)) = ToolResult_value NOT_FOUND \<longleftrightarrow>
              map_of available_tools name = None"
  proof (cases "map_of available_tools name")
    case None
    then show ?thesis by (simp add: execute_tool_unregistered)
  next
    case (Some f)
    obtain db' out where o: "f db args = (db', out)" by (cases "f db args")
    show ?thesis
      by (cases out)
        (simp_all add: execute_tool_raises [OF Some] execute_tool_returns [OF Some] o Some)
  qed
  have tri: "result (snd (execute_tool db name args)) \<in>
        {ToolResult_value SUCCESS, ToolResult_value ERROR, ToolResult_value NOT_FOUND}"
  proof (cases "map_of available_tools name")
    case None
    then show ?thesis by (simp add: execute_tool_unregistered)
  next
    case (Some f)
    obtain db' out where o: "f db args = (db', out)" by (cases "f db args")
    show ?thesis
      by (cases out) (simp_all add: execute_tool_raises [OF Some] execute_tool_returns [OF Some] o)
  qed
  have c1: "result (snd (execute_tool db name args)) = ToolResult_value NOT_FOUND \<longleftrightarrow>
      name \<notin> set [''create_task'', ''update_task'', ''delete_task'', ''get_task'',
                   ''list_tasks'', ''create_conversation'', ''add_message'',
                   ''get_conversation'']"
    using nf registered_iff [of name] by simp
  have c2: "\<forall>f db' e. map_of available_tools name = Some f \<and> f db args = (db', Inl e) \<longrightarrow>
         execute_tool db name args =
           (db', \<lparr>result = ToolResult_value ERROR, message = str_exn e, data = None\<rparr>)"
    using execute_tool_raises by blast
  have c3: "\<forall>f db' v. map_of available_tools name = Some f \<and> f db args = (db', Inr v) \<longrightarrow>
         execute_tool db name args =
           (db', \<lparr>result = ToolResult_value SUCCESS,
                  message = ''Tool executed successfully'', data = Some v\<rparr>)"
    using execute_tool_returns by blast
  show ?thesis
    by (rule conjI [OF c1 conjI [OF c2 conjI [OF c3 tri]]])
qed

theorem execute_tool_tri_state_witness:
  "map_of available_tools ''get_task'' = Some get_task
   \<and> get_task empty_session (no_arguments\<lparr>arg_id := Some 999\<rparr>) =
       (empty_session, Inl (ValueError ''Task with ID 999 not found''))
   \<and> execute_tool empty_session ''get_task'' (no_arguments\<lparr>arg_id := Some 999\<rparr>) =
       (empty_session, \<lparr>result = ''error'', message = ''Task with ID 999 not found'',
                         data = None\<rparr>)
   \<and> result (snd (execute_tool empty_session ''frobnicate'' no_arguments)) = ''not_found''"
proof -
  have g: "get_task empty_session (no_arguments\<lparr>arg_id := Some 999\<rparr>) =
       (empty_session, Inl (ValueError ''Task with ID 999 not found''))"
    by (simp add: get_task_def session_get_task_bindable sqlite_bindable_Some
        sqlite_integer_999 get_task_row_def empty_session_def no_arguments_def
        task_not_found_def py_str_key_def py_str_int_999)
  show ?thesis
    using execute_tool_tri_state [of empty_session "''get_task''"
        "no_arguments\<lparr>arg_id := Some 999\<rparr>"]
      execute_tool_tri_state [of empty_session "''frobnicate''" no_arguments]
    by (simp add: g registered_task_tools)
qed

lemma digits_of_step:
  "digits_of n = (if n < 10 then [char_of (48 + n)]
      else digits_of (n div 10) @ [char_of (48 + n mod 10)])"
  by (rule digits_of.simps)

lemma py_str_int_2_63: "py_str_int 9223372036854775808 = ''9223372036854775808''"
  by (simp add: py_str_int_def digits_of_step char_of_def bit_0)

lemma overflow_text_lacks_2_63:
  "\<not> py_in ''9223372036854775808'' ''Python int too large to convert to SQLite INTEGER''"
  by code_simp

lemma process_request_what_is_2_63:
  "process_request ''What is task #9223372036854775808?'' =
     Inr \<lparr>resp_message = ''Processing your request...'',
          resp_tool_calls =
            [\<lparr>call_name = ''get_task'',
               call_arguments = no_arguments\<lparr>arg_id := Some 9223372036854775808\<rparr>\<rparr>],
          resp_needs_confirmation = False,
          resp_confirmation_message = None\<rparr>"
  by code_simp

text \<open>
  C4, as stated, fails for an id that the database cannot hold. The request
  \<^verbatim>\<open>What is task #9223372036854775808?\<close> resolves to \<^verbatim>\<open>get_task\<close> with the id \<open>2\<^sup>6\<^sup>3\<close>; no
  task has it; \<^verbatim>\<open>db_session.get\<close> raises \<^verbatim>\<open>OverflowError\<close>, and the \<open>error\<close> result of
  \<^verbatim>\<open>execute_tool\<close> carries the driver's text, in which the id does not occur.
\<close>

theorem absent_task_id_out_of_range:
  "process_request ''What is task #9223372036854775808?'' =
     Inr \<lparr>resp_message = ''Processing your request...'',
          resp_tool_calls =
            [\<lparr>call_name = ''get_task'',
               call_arguments = no_arguments\<lparr>arg_id := Some 9223372036854775808\<rparr>\<rparr>],
          resp_needs_confirmation = False,
          resp_confirmation_message = None\<rparr>
   \<and> find (\<lambda>t. task_id t = 9223372036854775808) (tasks empty_session) = None
   \<and> execute_tool empty_session ''get_task''
         (no_arguments\<lparr>arg_id := Some 9223372036854775808\<rparr>) =
       (empty_session,
        \<lparr>result = ''error'', message = ''Python int too large to convert to SQLite INTEGER'',
         data = None\<rparr>)
   \<and> py_str_int 9223372036854775808 = ''9223372036854775808''
   \<and> \<not> py_in ''9223372036854775808'' ''Python int too large to convert to SQLite INTEGER''"
proof -
  have f: "find (\<lambda>t. task_id t = 9223372036854775808) (tasks empty_session) = None"
    by (simp add: empty_session_def)
  have "\<not> sqlite_bindable (arg_id (no_arguments\<lparr>arg_id := Some 9223372036854775808\<rparr>))"
    by (simp add: sqlite_bindable_def sqlite_integer_def)
  then have "get_task empty_session (no_arguments\<lparr>arg_id := Some 9223372036854775808\<rparr>) =
      (empty_session, Inl int_too_large)"
    by (rule unbindable_key_raises(2))
  from execute_tool_raises [OF registered_task_tools(2) this]
  have x: "execute_tool empty_session ''get_task''
         (no_arguments\<lparr>arg_id := Some 9223372036854775808\<rparr>) =
       (empty_session,
        \<lparr>result = ''error'', message = ''Python int too large to convert to SQLite INTEGER'',
         data = None\<rparr>)"
    by (simp add: int_too_large_def)
  show ?thesis
    by (rule conjI [OF process_request_what_is_2_63
          conjI [OF f conjI [OF x conjI [OF py_str_int_2_63 overflow_text_lacks_2_63]]]])
qed

text \<open>
  C4, amended. For a task id that no row carries, \<^verbatim>\<open>update_task\<close>, \<^verbatim>\<open>get_task\<close> and
  \<^verbatim>\<open>delete_task\<close> run through \<^verbatim>\<open>execute_tool\<close> give an \<open>error\<close> result and leave the
  session as before. When the id is in the signed 64-bit range of the database, the
  message is \<^verbatim>\<open>Task with ID <id> not found\<close>, in which the decimal text of the id occurs;
  when it is not, the message is the driver's
  \<^verbatim>\<open>Python int too large to convert to SQLite INTEGER\<close>.
\<close>

theorem absent_task_typed_error:
  assumes "arg_id args = Some i"
    and "find (\<lambda>t. task_id t = i) (tasks db) = None"
    and "name \<in> {''update_task'', ''get_task'', ''delete_task''}"
  shows "(sqlite_integer i \<longrightarrow>
            execute_tool db name args =
              (db, \<lparr>result = ToolResult_value ERROR,
                    message = ''Task with ID '' @ py_str_int i @ '' not found'',
                    data = None\<rparr>)
            \<and> py_in (py_str_int i) (message (snd (execute_tool db name args))))
       \<and> (\<not> sqlite_integer i \<longrightarrow>
            execute_tool db name args =
              (db, \<lparr>result = ToolResult_value ERROR,
                    message = ''Python int too large to convert to SQLite INTEGER'',
                    data = None\<rparr>))"
proof (cases "sqlite_integer i")
  case True
  then have b: "sqlite_bindable (Some i)" by (simp add: sqlite_bindable_Some)
  have row: "get_task_row db (Some i) = None"
    using assms(2) by (simp add: get_task_row_def)
  have ex: "execute_tool db name args =
           (db, \<lparr>result = ToolResult_value ERROR,
                 message = ''Task with ID '' @ py_str_int i @ '' not found'',
                 data = None\<rparr>)"
    using assms(3) absent_task_raises [OF row assms(1) b]
    by (auto simp: execute_tool_def registered_task_tools task_not_found_def py_str_key_def)
  have "py_in (py_str_int i) (''Task with ID '' @ py_str_int i @ '' not found'')"
    by (rule py_in_appendI)
  with ex True show ?thesis by simp
next
  case False
  then have b: "\<not> sqlite_bindable (arg_id args)"
    using assms(1) by (simp add: sqlite_bindable_Some)
  have "execute_tool db name args =
           (db, \<lparr>result = ToolResult_value ERROR,
                 message = ''Python int too large to convert to SQLite INTEGER'',
                 data = None\<rparr>)"
    using assms(3) unbindable_key_raises [OF b, of db]
    by (auto simp: execute_tool_def registered_task_tools int_too_large_def)
  with False show ?thesis by simp
qed

theorem absent_task_typed_error_witness:
  "arg_id (no_arguments\<lparr>arg_id := Some 999\<rparr>) = Some 999
   \<and> find (\<lambda>t. task_id t = 999) (tasks empty_session) = None
   \<and> ''delete_task'' \<in> {''update_task'', ''get_task'', ''delete_task''}
   \<and> sqlite_integer 999
   \<and> execute_tool empty_session ''delete_task'' (no_arguments\<lparr>arg_id := Some 999\<rparr>) =
       (empty_session, \<lparr>result = ''error'', message = ''Task with ID 999 not found'',
                         data = None\<rparr>)"
  using absent_task_typed_error [of "no_arguments\<lparr>arg_id := Some 999\<rparr>" 999 empty_session
      "''delete_task''"]
  by (simp add: py_str_int_999 no_arguments_def empty_session_def sqlite_integer_999)

section \<open>The confirmation gate\<close>

lemma process_request_delete_2:
  "process_request ''Delete task #2'' =
     Inr \<lparr>resp_message = ''Processing your request...'',
          resp_tool_calls =
            [\<lparr>call_name = ''delete_task'',
               call_arguments = no_arguments\<lparr>arg_id := Some 2\<rparr>\<rparr>],
          resp_needs_confirmation = True,
          resp_confirmation_message = Some ''I'm about to delete task #2. Is that OK?''\<rparr>"
  by code_simp

lemma gated_call_is_held_back:
  "needs_confirmation (call_name tc) \<Longrightarrow>
   execute_tool_calls_with_session [tc] db True =
     (db, [\<lparr>result = ''pending_confirmation'',
            message = ''Action '' @ [CHR 0x27] @ call_name tc @ [CHR 0x27]
                        @ '' requires confirmation'',
            data = None, tool_name = call_name tc\<rparr>])"
  by simp

text \<open>
  C7. The request \<^verbatim>\<open>Delete task #2\<close> resolves to one \<^verbatim>\<open>delete_task\<close> call with id 2 that
  needs confirmation, and its prompt is \<^verbatim>\<open>I'm about to delete task #2. Is that OK?\<close>.
  Run with \<^verbatim>\<open>confirm_execution=True\<close> (no bypass), the call is not executed: the session
  is returned as it was, whatever it holds, and the only result is the
  \<^verbatim>\<open>pending_confirmation\<close> placeholder. A whole request answers with the prompt.
\<close>

theorem delete_task_2_awaits_confirmation:
  "process_request ''Delete task #2'' =
     Inr \<lparr>resp_message = ''Processing your request...'',
          resp_tool_calls =
            [\<lparr>call_name = ''delete_task'',
               call_arguments = no_arguments\<lparr>arg_id := Some 2\<rparr>\<rparr>],
          resp_needs_confirmation = True,
          resp_confirmation_message = Some ''I'm about to delete task #2. Is that OK?''\<rparr>
   \<and> execute_tool_calls_with_session
         [\<lparr>call_name = ''delete_task'', call_arguments = no_arguments\<lparr>arg_id := Some 2\<rparr>\<rparr>]
         db True =
       (db, [\<lparr>result = ''pending_confirmation'',
              message = ''Action 'delete_task' requires confirmation'',
              data = None, tool_name = ''delete_task''\<rparr>])
   \<and> handle_user_request ''Delete task #2'' True db =
       (db, Inr ''I'm about to delete task #2. Is that OK?'')"
proof -
  have n: "needs_confirmation ''delete_task''"
    by (simp add: needs_confirmation_def)
  have e: "execute_tool_calls_with_session
         [\<lparr>call_name = ''delete_task'', call_arguments = no_arguments\<lparr>arg_id := Some 2\<rparr>\<rparr>]
         db True =
       (db, [\<lparr>result = ''pending_confirmation'',
              message = ''Action 'delete_task' requires confirmation'',
              data = None, tool_name = ''delete_task''\<rparr>])"
    using n by simp
  have h: "handle_user_request ''Delete task #2'' True db =
       (db, Inr ''I'm about to delete task #2. Is that OK?'')"
    by (simp add: handle_user_request_def process_request_delete_2)
  show ?thesis
    by (rule conjI [OF process_request_delete_2 conjI [OF e h]])
qed

section \<open>The task executors\<close>

lemma find_append_new:
  "find P xs = None \<Longrightarrow> find P (xs @ ys) = find P ys"
  by (induction xs) (auto split: if_splits)

lemma find_append_old:
  "find P xs = Some x \<Longrightarrow> find P (xs @ ys) = Some x"
  by (induction xs) (auto split: if_splits)

lemma highest_None: "highest ids = None \<longleftrightarrow> ids = []"
  by (cases ids) (auto split: option.splits)

lemma highest_bound: "highest ids = Some m \<Longrightarrow> x \<in> set ids \<Longrightarrow> x \<le> m"
  by (induction ids arbitrary: m) (auto simp: highest_None split: option.splits)

lemma next_id_fresh: "next_id ids \<notin> set ids"
proof (cases "highest ids")
  case None
  then show ?thesis by (simp add: highest_None)
next
  case (Some m)
  then have "\<forall>x\<in>set ids. x \<le> m" by (blast intro: highest_bound)
  then have "m + 1 \<notin> set ids" by fastforce
  with Some show ?thesis by (simp add: next_id_def)
qed

lemma find_fresh_id: "find (\<lambda>t. task_id t = next_id (map task_id ts)) ts = None"
proof -
  have "next_id (map task_id ts) \<notin> set (map task_id ts)" by (rule next_id_fresh)
  then have "\<forall>x\<in>set ts. task_id x \<noteq> next_id (map task_id ts)" by force
  then show ?thesis by (simp add: find_None_iff)
qed

lemma create_task_success:
  assumes "create_task db args = (db', Inr v)"
  shows "\<exists>t. v = TaskData t \<and> find (\<lambda>r. task_id r = task_id t) (tasks db') = Some t
             \<and> task_id t = next_id (map task_id (tasks db))
             \<and> tasks db' = tasks db @ [t]
             \<and> sqlite_integer (task_id t)"
  using assms
  by (auto simp: create_task_def utcnow_def Let_def find_append_new find_fresh_id
      split: sum.splits option.splits if_splits)

lemma execute_tool_success_data:
  assumes "result (snd (execute_tool db name args)) = ToolResult_value SUCCESS"
  shows "\<exists>f v. map_of available_tools name = Some f \<and> snd (f db args) = Inr v
               \<and> fst (execute_tool db name args) = fst (f db args)
               \<and> snd (execute_tool db name args) =
                   \<lparr>result = ToolResult_value SUCCESS,
                     message = ''Tool executed successfully'', data = Some v\<rparr>"
  using assms
  by (auto simp: execute_tool_def split: option.splits sum.splits prod.splits)

text \<open>
  C8. When \<^verbatim>\<open>create_task\<close> run through \<^verbatim>\<open>execute_tool\<close> succeeds, its payload is a task,
  and \<^verbatim>\<open>get_task\<close> with the id of that task, run on the session that the creation left,
  succeeds with the very same record (all of its fields) and leaves the session as it is.
\<close>

theorem create_then_get_round_trip:
  assumes "execute_tool db ''create_task'' args = (db', r)"
    and "result r = ToolResult_value SUCCESS"
  shows "\<exists>t. data r = Some (TaskData t)
             \<and> execute_tool db' ''get_task'' (no_arguments\<lparr>arg_id := Some (task_id t)\<rparr>) =
                 (db', \<lparr>result = ToolResult_value SUCCESS,
                        message = ''Tool executed successfully'',
                        data = Some (TaskData t)\<rparr>)"
proof -
  from assms have "result (snd (execute_tool db ''create_task'' args)) = ToolResult_value SUCCESS"
    by simp
  from execute_tool_success_data [OF this] obtain v
    where v: "snd (create_task db args) = Inr v" "db' = fst (create_task db args)"
      "r = \<lparr>result = ToolResult_value SUCCESS,
                     message = ''Tool executed successfully'', data = Some v\<rparr>"
    using assms(1) by (auto simp: registered_task_tools)
  then have "create_task db args = (db', Inr v)" by (simp add: prod_eq_iff)
  from create_task_success [OF this] obtain t
    where t: "v = TaskData t" "find (\<lambda>r. task_id r = task_id t) (tasks db') = Some t"
      "sqlite_integer (task_id t)"
    by blast
  have "get_task db' (no_arguments\<lparr>arg_id := Some (task_id t)\<rparr>) = (db', Inr (TaskData t))"
    using t(2,3)
    by (simp add: get_task_def session_get_task_bindable sqlite_bindable_Some get_task_row_def
        no_arguments_def)
  then have "execute_tool db' ''get_task'' (no_arguments\<lparr>arg_id := Some (task_id t)\<rparr>) =
                 (db', \<lparr>result = ToolResult_value SUCCESS,
                        message = ''Tool executed successfully'',
                        data = Some (TaskData t)\<rparr>)"
    by (rule execute_tool_returns [OF registered_task_tools(2)])
  with v(3) t(1) show ?thesis by simp
qed

theorem create_then_get_round_trip_witness:
  "result (snd (execute_tool empty_session ''create_task'' buy_milk)) = ToolResult_value SUCCESS
   \<and> data (snd (execute_tool empty_session ''create_task'' buy_milk)) = Some (TaskData milk_task)
   \<and> snd (execute_tool (fst (execute_tool empty_session ''create_task'' buy_milk)) ''get_task''
            (no_arguments\<lparr>arg_id := Some 1\<rparr>)) =
       \<lparr>result = ''success'', message = ''Tool executed successfully'',
        data = Some (TaskData milk_task)\<rparr>"
proof -
  have c: "snd (execute_tool empty_session ''create_task'' buy_milk) =
      \<lparr>result = ''success'', message = ''Tool executed successfully'',
       data = Some (TaskData milk_task)\<rparr>"
    by (simp add: execute_tool_def registered_task_tools create_task_def buy_milk_def
        no_arguments_def empty_session_def milk_task_def TaskStatus_of_def PriorityLevel_of_def
        utcnow_def next_id_def Let_def sqlite_integer_def sqlite_bindable_def)
  have p: "execute_tool empty_session ''create_task'' buy_milk =
      (fst (execute_tool empty_session ''create_task'' buy_milk),
       snd (execute_tool empty_session ''create_task'' buy_milk))"
    by simp
  have r: "result (snd (execute_tool empty_session ''create_task'' buy_milk))
      = ToolResult_value SUCCESS"
    by (simp add: c)
  from create_then_get_round_trip [OF p r]
  have "execute_tool (fst (execute_tool empty_session ''create_task'' buy_milk)) ''get_task''
            (no_arguments\<lparr>arg_id := Some 1\<rparr>) =
       (fst (execute_tool empty_session ''create_task'' buy_milk),
        \<lparr>result = ''success'', message = ''Tool executed successfully'',
         data = Some (TaskData milk_task)\<rparr>)"
    unfolding c by (simp add: milk_task_def)
  then show ?thesis
    by (simp add: c)
qed

lemma find_map_replace:
  assumes "find (\<lambda>r. task_id r = i) ts \<noteq> None" and "task_id new = i"
  shows "find (\<lambda>r. task_id r = i) (map (\<lambda>r. if task_id r = i then new else r) ts) = Some new"
  using assms by (induction ts) (auto split: if_splits)

lemma find_map_other:
  assumes "j \<noteq> i" and "task_id new = i"
  shows "find (\<lambda>r. task_id r = j) (map (\<lambda>r. if task_id r = i then new else r) ts)
           = find (\<lambda>r. task_id r = j) ts"
  using assms by (induction ts) auto

lemma find_Some_id: "find (\<lambda>r. task_id r = i) ts = Some t \<Longrightarrow> task_id t = i"
  by (induction ts) (auto split: if_splits)

lemma get_put_task_same:
  assumes "task_id new = i" and "get_task_row db (Some i) \<noteq> None"
  shows "get_task_row (put_task db new) (Some i) = Some new"
  using assms by (auto simp: get_task_row_def put_task_def find_map_replace)

lemma get_put_task_other:
  assumes "j \<noteq> task_id new"
  shows "get_task_row (put_task db new) (Some j) = get_task_row db (Some j)"
  using assms by (simp add: get_task_row_def put_task_def find_map_other)

lemma get_task_row_id: "get_task_row db key = Some t \<Longrightarrow> key = Some (task_id t)"
  by (cases key) (auto simp: get_task_row_def dest: find_Some_id)

text \<open>What \<^verbatim>\<open>_update_task\<close> leaves on the session, whatever its outcome.\<close>

lemma update_task_stored:
  assumes "get_task_row db (arg_id args) = Some old"
    and "update_task db args = (db', out)"
  shows "\<exists>new. get_task_row db' (arg_id args) = Some new
     \<and> task_id new = task_id old
     \<and> task_created_at new = task_created_at old
     \<and> task_updated_at new = task_updated_at old
     \<and> (arg_title args = None \<longrightarrow> task_title new = task_title old)
     \<and> (arg_description args = None \<longrightarrow> task_description new = task_description old)
     \<and> (arg_status args = None \<longrightarrow> task_status new = task_status old)
     \<and> (arg_priority args = None \<longrightarrow> task_priority new = task_priority old)
     \<and> (arg_conversation_id args = None \<longrightarrow>
           task_conversation_id new = task_conversation_id old)
     \<and> (\<forall>v. out = Inr v \<longrightarrow> v = TaskData new
           \<and> (\<forall>x. arg_title args = Some x \<longrightarrow> task_title new = x)
           \<and> (\<forall>x. arg_description args = Some x \<longrightarrow> task_description new = Some x)
           \<and> (\<forall>x. arg_status args = Some x \<longrightarrow> TaskStatus_of x = Inr (task_status new))
           \<and> (\<forall>x. arg_priority args = Some x \<longrightarrow> PriorityLevel_of x = Inr (task_priority new))
           \<and> (\<forall>x. arg_conversation_id args = Some x \<longrightarrow> task_conversation_id new = Some x))"
proof -
  have key: "arg_id args = Some (task_id old)"
    using assms(1) by (rule get_task_row_id)
  have r: "get_task_row db (Some (task_id old)) = Some old"
    using assms(1) key by simp
  have ex: "get_task_row db (Some (task_id old)) \<noteq> None"
    using r by simp
  note same = get_put_task_same [OF _ ex]
  have upd: "update_task db args = (db', out)" by (rule assms(2))
  show ?thesis
  proof (cases "sqlite_integer (task_id old)")
    case False
    then have "update_task db args = (db, Inl int_too_large)"
      by (simp add: update_task_def key session_get_task_overflow sqlite_bindable_Some)
    with upd have "db' = db" "out = Inl int_too_large" by simp_all
    with r key show ?thesis by simp
  next
    case True
    then have s: "session_get_task db (Some (task_id old)) = Inr (Some old)"
      by (simp add: session_get_task_bindable sqlite_bindable_Some r)
    have d: "db' = fst (update_task db args)" and o: "out = snd (update_task db args)"
      using upd by simp_all
    show ?thesis
    proof (cases "arg_title args"; cases "arg_description args"; cases "arg_status args";
          cases "arg_priority args"; cases "arg_conversation_id args";
          cases "sqlite_bindable (arg_conversation_id args)")
    qed (auto simp: d o update_task_def key r s Let_def same sqlite_bindable_None
           split: sum.splits)
  qed
qed

lemma update_task_others:
  assumes "get_task_row db (arg_id args) = Some old"
    and "update_task db args = (db', out)"
    and "j \<noteq> task_id old"
  shows "get_task_row db' (Some j) = get_task_row db (Some j)"
proof -
  have upd: "update_task db args = (db', out)" by (rule assms(2))
  note other = get_put_task_other [of j _ db]
  show ?thesis
  proof (cases "sqlite_bindable (arg_id args)")
    case False
    then have "update_task db args = (db, Inl int_too_large)"
      by (rule unbindable_key_raises(1))
    with upd show ?thesis by simp
  next
    case True
    then have s: "session_get_task db (arg_id args) = Inr (Some old)"
      using assms(1) by (simp add: session_get_task_bindable)
    have d: "db' = fst (update_task db args)"
      using upd by simp
    show ?thesis
    proof (cases "arg_title args"; cases "arg_description args"; cases "arg_status args";
          cases "arg_priority args"; cases "arg_conversation_id args";
          cases "sqlite_bindable (arg_conversation_id args)")
    qed (use assms(3) in \<open>auto simp: d update_task_def s Let_def other sqlite_bindable_None
           split: sum.splits\<close>)
  qed
qed


text \<open>
  C9. For a task that exists, after \<^verbatim>\<open>update_task\<close> the session still holds a row under the
  same id, with the same \<^verbatim>\<open>created_at\<close> and \<^verbatim>\<open>updated_at\<close>; each of \<^verbatim>\<open>title\<close>,
  \<^verbatim>\<open>description\<close>, \<^verbatim>\<open>status\<close>, \<^verbatim>\<open>priority\<close> and \<^verbatim>\<open>conversation_id\<close> that the arguments do not
  name keeps its value, and so does every other task. When the call returns (neither enum
  conversion raises), the payload is that row and each named field has the value given.
\<close>

theorem update_task_overwrites_named_fields_only:
  assumes "get_task_row db (arg_id args) = Some old"
    and "update_task db args = (db', out)"
  shows "(\<exists>new. get_task_row db' (arg_id args) = Some new
     \<and> task_id new = task_id old
     \<and> task_created_at new = task_created_at old
     \<and> task_updated_at new = task_updated_at old
     \<and> (arg_title args = None \<longrightarrow> task_title new = task_title old)
     \<and> (arg_description args = None \<longrightarrow> task_description new = task_description old)
     \<and> (arg_status args = None \<longrightarrow> task_status new = task_status old)
     \<and> (arg_priority args = None \<longrightarrow> task_priority new = task_priority old)
     \<and> (arg_conversation_id args = None \<longrightarrow>
           task_conversation_id new = task_conversation_id old)
     \<and> (\<forall>v. out = Inr v \<longrightarrow> v = TaskData new
           \<and> (\<forall>x. arg_title args = Some x \<longrightarrow> task_title new = x)
           \<and> (\<forall>x. arg_description args = Some x \<longrightarrow> task_description new = Some x)
           \<and> (\<forall>x. arg_status args = Some x \<longrightarrow> TaskStatus_of x = Inr (task_status new))
           \<and> (\<forall>x. arg_priority args = Some x \<longrightarrow> PriorityLevel_of x = Inr (task_priority new))
           \<and> (\<forall>x. arg_conversation_id args = Some x \<longrightarrow> task_conversation_id new = Some x)))
   \<and> (\<forall>j. j \<noteq> task_id old \<longrightarrow> get_task_row db' (Some j) = get_task_row db (Some j))"
proof -
  have "\<forall>j. j \<noteq> task_id old \<longrightarrow> get_task_row db' (Some j) = get_task_row db (Some j)"
    using update_task_others [OF assms] by blast
  with update_task_stored [OF assms] show ?thesis by (rule conjI)
qed

theorem update_task_overwrites_named_fields_only_witness:
  "get_task_row one_task_session (arg_id rename_first) = Some sample_task
   \<and> update_task one_task_session rename_first =
       (one_task_session\<lparr>tasks := [sample_task\<lparr>task_title := ''Renamed''\<rparr>]\<rparr>,
        Inr (TaskData (sample_task\<lparr>task_title := ''Renamed''\<rparr>)))
   \<and> (\<exists>new. get_task_row (one_task_session\<lparr>tasks := [sample_task\<lparr>task_title := ''Renamed''\<rparr>]\<rparr>)
               (Some 1) = Some new
         \<and> task_title new = ''Renamed''
         \<and> task_description new = task_description sample_task
         \<and> task_status new = task_status sample_task
         \<and> task_priority new = task_priority sample_task
         \<and> task_conversation_id new = task_conversation_id sample_task
         \<and> task_created_at new = task_created_at sample_task
         \<and> task_updated_at new = task_updated_at sample_task)"
proof -
  have i: "arg_id rename_first = Some 1"
    by (simp add: rename_first_def no_arguments_def)
  have g: "get_task_row one_task_session (arg_id rename_first) = Some sample_task"
    unfolding i by (simp add: get_task_row_def one_task_session_def sample_task_def)
  have u: "update_task one_task_session rename_first =
       (one_task_session\<lparr>tasks := [sample_task\<lparr>task_title := ''Renamed''\<rparr>]\<rparr>,
        Inr (TaskData (sample_task\<lparr>task_title := ''Renamed''\<rparr>)))"
  proof -
    have "session_get_task one_task_session (arg_id rename_first) = Inr (Some sample_task)"
      using g by (simp add: session_get_task_def i sqlite_bindable_def sqlite_integer_def)
    then show ?thesis
      unfolding update_task_def
      by (simp add: sqlite_bindable_def rename_first_def no_arguments_def put_task_def
          one_task_session_def sample_task_def Let_def)
  qed
  from update_task_overwrites_named_fields_only [OF g u]
  have ex: "\<exists>new. get_task_row (one_task_session\<lparr>tasks := [sample_task\<lparr>task_title := ''Renamed''\<rparr>]\<rparr>)
               (Some 1) = Some new
         \<and> task_title new = ''Renamed''
         \<and> task_description new = task_description sample_task
         \<and> task_status new = task_status sample_task
         \<and> task_priority new = task_priority sample_task
         \<and> task_conversation_id new = task_conversation_id sample_task
         \<and> task_created_at new = task_created_at sample_task
         \<and> task_updated_at new = task_updated_at sample_task"
    by (auto simp: rename_first_def no_arguments_def)
  show ?thesis
    by (rule conjI [OF g conjI [OF u ex]])
qed

lemma get_task_row_tasks: "tasks db' = tasks db \<Longrightarrow> get_task_row db' key = get_task_row db key"
  by (cases key) (simp_all add: get_task_row_def)

lemma find_filter_other:
  "find (\<lambda>r. task_id r = i) (filter (\<lambda>r. task_id r \<noteq> j) ts) =
     (if i = j then None else find (\<lambda>r. task_id r = i) ts)"
  by (induction ts) auto

lemma create_task_keeps:
  assumes "create_task db args = (db', out)" and "get_task_row db (Some i) = Some t"
  shows "get_task_row db' (Some i) = Some t"
proof -
  have "tasks db' = tasks db \<or> (\<exists>new. tasks db' = tasks db @ [new])"
    using assms(1)
    by (auto simp: create_task_def utcnow_def Let_def split: sum.splits option.splits if_splits)
  then show ?thesis
    using assms(2) by (auto simp: get_task_row_def find_append_old)
qed

lemma update_task_keeps:
  assumes "update_task db args = (db', out)" and "get_task_row db (Some i) = Some t"
    and "get_task_row db' (Some i) = Some t'"
  shows "task_updated_at t' = task_updated_at t"
proof (cases "get_task_row db (arg_id args)")
  case None
  then have "db' = db"
    using assms(1) by (auto simp: update_task_def session_get_task_def split: if_splits)
  with assms show ?thesis by simp
next
  case (Some old)
  have key: "arg_id args = Some (task_id old)" using Some by (rule get_task_row_id)
  show ?thesis
  proof (cases "i = task_id old")
    case True
    then have "t = old" using Some key assms(2) by simp
    moreover from update_task_stored [OF Some assms(1)] obtain new
      where "get_task_row db' (arg_id args) = Some new"
        and "task_updated_at new = task_updated_at old" by blast
    ultimately show ?thesis using assms(3) key True by simp
  next
    case False
    then have "get_task_row db' (Some i) = get_task_row db (Some i)"
      by (rule update_task_others [OF Some assms(1)])
    with assms show ?thesis by simp
  qed
qed

lemma delete_task_keeps:
  assumes "delete_task db args = (db', out)" and "get_task_row db (Some i) = Some t"
    and "get_task_row db' (Some i) = Some t'"
  shows "t' = t"
proof (cases "get_task_row db (arg_id args)")
  case None
  then have "db' = db"
    using assms(1) by (auto simp: delete_task_def session_get_task_def split: if_splits)
  with assms show ?thesis by simp
next
  case (Some old)
  then have "db' = db \<or> tasks db' = filter (\<lambda>r. task_id r \<noteq> task_id old) (tasks db)"
    using assms(1) by (auto simp: delete_task_def session_get_task_def split: if_splits)
  then show ?thesis
  proof
    assume "db' = db"
    with assms show ?thesis by simp
  next
    assume "tasks db' = filter (\<lambda>r. task_id r \<noteq> task_id old) (tasks db)"
    then show ?thesis
      using assms(2,3) by (simp add: get_task_row_def find_filter_other split: if_splits)
  qed
qed

lemma read_only_executors:
  "fst (get_task db args) = db" "fst (list_tasks db args) = db"
  "fst (get_conversation db args) = db"
  by (simp_all add: get_task_def list_tasks_def get_conversation_def
      split: option.splits sum.splits)

lemma other_tables_executors:
  "tasks (fst (create_conversation db args)) = tasks db"
  "tasks (fst (add_message db args)) = tasks db"
  by (simp_all add: create_conversation_def add_message_def utcnow_def Let_def
      split: option.splits sum.splits)


lemma registered_executor:
  assumes "map_of available_tools name = Some f"
  shows "f = create_task \<or> f = update_task \<or> f = delete_task \<or> f = get_task
       \<or> f = list_tasks \<or> f = create_conversation \<or> f = add_message \<or> f = get_conversation"
proof -
  from assms have "(name, f) \<in> set available_tools" by (rule map_of_SomeD)
  then show ?thesis unfolding available_tools_def by auto
qed

lemma executor_keeps_updated_at:
  assumes "map_of available_tools name = Some f" and "f db args = (db', out)"
    and "get_task_row db (Some i) = Some t" and "get_task_row db' (Some i) = Some t'"
  shows "task_updated_at t' = task_updated_at t"
proof -
  from registered_executor [OF assms(1)] consider
      "f = create_task" | "f = update_task" | "f = delete_task" | "f = get_task"
    | "f = list_tasks" | "f = create_conversation" | "f = add_message" | "f = get_conversation"
    by blast
  then show ?thesis
  proof cases
    case 1
    with assms(2) have "create_task db args = (db', out)" by simp
    from create_task_keeps [OF this assms(3)] assms(4) show ?thesis by simp
  next
    case 2
    with assms(2) have "update_task db args = (db', out)" by simp
    then show ?thesis using assms(3,4) by (rule update_task_keeps)
  next
    case 3
    with assms(2) have "delete_task db args = (db', out)" by simp
    then have "t' = t" using assms(3,4) by (rule delete_task_keeps)
    then show ?thesis by simp
  next
    case 4
    with assms(2) read_only_executors(1) [of db args] have "db' = db" by simp
    with assms(3,4) show ?thesis by simp
  next
    case 5
    with assms(2) read_only_executors(2) [of db args] have "db' = db" by simp
    with assms(3,4) show ?thesis by simp
  next
    case 6
    with assms(2) other_tables_executors(1) [of db args] have "tasks db' = tasks db" by simp
    then have "get_task_row db' (Some i) = get_task_row db (Some i)" by (rule get_task_row_tasks)
    with assms(3,4) show ?thesis by simp
  next
    case 7
    with assms(2) other_tables_executors(2) [of db args] have "tasks db' = tasks db" by simp
    then have "get_task_row db' (Some i) = get_task_row db (Some i)" by (rule get_task_row_tasks)
    with assms(3,4) show ?thesis by simp
  next
    case 8
    with assms(2) read_only_executors(3) [of db args] have "db' = db" by simp
    with assms(3,4) show ?thesis by simp
  qed
qed

text \<open>
  C10. No tool changes \<^verbatim>\<open>updated_at\<close>: whatever tool \<^verbatim>\<open>execute_tool\<close> is asked to run, with
  whatever arguments and outcome, a task that the session holds before and after the call
  has the \<^verbatim>\<open>updated_at\<close> it had before. For \<^verbatim>\<open>update_task\<close> this is the value that
  \<^verbatim>\<open>_create_task\<close> gave it, although other fields change.
\<close>

theorem executors_keep_updated_at:
  assumes "get_task_row db (Some i) = Some t"
    and "execute_tool db name args = (db', r)"
    and "get_task_row db' (Some i) = Some t'"
  shows "task_updated_at t' = task_updated_at t"
proof (cases "map_of available_tools name")
  case None
  with assms(2) have "db' = db" by (simp add: execute_tool_def)
  with assms show ?thesis by simp
next
  case (Some f)
  obtain db1 out where f: "f db args = (db1, out)" by (cases "f db args")
  with Some assms(2) have "db' = db1"
    by (cases out) (simp_all add: execute_tool_def)
  with executor_keeps_updated_at [OF Some f assms(1)] assms(3) show ?thesis by simp
qed

theorem executors_keep_updated_at_witness:
  "get_task_row one_task_session (Some 1) = Some sample_task
   \<and> execute_tool one_task_session ''update_task'' rename_first =
       (one_task_session\<lparr>tasks := [sample_task\<lparr>task_title := ''Renamed''\<rparr>]\<rparr>,
        \<lparr>result = ''success'', message = ''Tool executed successfully'',
         data = Some (TaskData (sample_task\<lparr>task_title := ''Renamed''\<rparr>))\<rparr>)
   \<and> get_task_row (one_task_session\<lparr>tasks := [sample_task\<lparr>task_title := ''Renamed''\<rparr>]\<rparr>) (Some 1)
       = Some (sample_task\<lparr>task_title := ''Renamed''\<rparr>)
   \<and> task_updated_at (sample_task\<lparr>task_title := ''Renamed''\<rparr>) = 101"
proof -
  have g: "get_task_row one_task_session (Some 1) = Some sample_task"
    by (simp add: get_task_row_def one_task_session_def sample_task_def)
  have i: "arg_id rename_first = Some 1"
    by (simp add: rename_first_def no_arguments_def)
  have u: "update_task one_task_session rename_first =
       (one_task_session\<lparr>tasks := [sample_task\<lparr>task_title := ''Renamed''\<rparr>]\<rparr>,
        Inr (TaskData (sample_task\<lparr>task_title := ''Renamed''\<rparr>)))"
  proof -
    have "session_get_task one_task_session (arg_id rename_first) = Inr (Some sample_task)"
      using g by (simp add: session_get_task_def i sqlite_bindable_def sqlite_integer_def)
    then show ?thesis
      unfolding update_task_def
      by (simp add: sqlite_bindable_def rename_first_def no_arguments_def put_task_def
          one_task_session_def sample_task_def Let_def)
  qed
  have e: "execute_tool one_task_session ''update_task'' rename_first =
       (one_task_session\<lparr>tasks := [sample_task\<lparr>task_title := ''Renamed''\<rparr>]\<rparr>,
        \<lparr>result = ''success'', message = ''Tool executed successfully'',
         data = Some (TaskData (sample_task\<lparr>task_title := ''Renamed''\<rparr>))\<rparr>)"
    using u by (simp add: execute_tool_def registered_task_tools)
  have g': "get_task_row (one_task_session\<lparr>tasks := [sample_task\<lparr>task_title := ''Renamed''\<rparr>]\<rparr>)
       (Some 1) = Some (sample_task\<lparr>task_title := ''Renamed''\<rparr>)"
    by (simp add: get_task_row_def sample_task_def)
  from executors_keep_updated_at [OF g e g']
  have k: "task_updated_at (sample_task\<lparr>task_title := ''Renamed''\<rparr>) = 101"
    by (simp add: sample_task_def)
  show ?thesis
    by (rule conjI [OF g conjI [OF e conjI [OF g' k]]])
qed

section \<open>Replies to whole requests\<close>

lemma process_request_what_is_999:
  "process_request ''What is task #999?'' =
     Inr \<lparr>resp_message = ''Processing your request...'',
          resp_tool_calls =
            [\<lparr>call_name = ''get_task'',
               call_arguments = no_arguments\<lparr>arg_id := Some 999\<rparr>\<rparr>],
          resp_needs_confirmation = False,
          resp_confirmation_message = None\<rparr>"
  by code_simp

lemma reply_lacks_suggestion:
  "\<not> py_in ''Would you like me to list all tasks so you can find the right one?''
       ''Sorry, I encountered an error: Task with ID 999 not found''"
  by code_simp

text \<open>
  C1. On a session without a task 999, the request \<^verbatim>\<open>What is task #999?\<close> resolves to one
  \<^verbatim>\<open>get_task\<close> call with id 999. \<^verbatim>\<open>_get_task\<close> raises \<^verbatim>\<open>ValueError\<close>, which \<^verbatim>\<open>execute_tool\<close>
  reports with the result \<^verbatim>\<open>error\<close>, not \<^verbatim>\<open>not_found\<close>; so \<^verbatim>\<open>_format_results\<close> takes its
  \<^verbatim>\<open>error\<close> branch and the reply is
  \<^verbatim>\<open>Sorry, I encountered an error: Task with ID 999 not found\<close>, in which the suggestion
  to list all tasks does not occur.
\<close>

theorem missing_task_999_reply:
  assumes "find (\<lambda>t. task_id t = 999) (tasks db) = None"
  shows "process_request ''What is task #999?'' =
     Inr \<lparr>resp_message = ''Processing your request...'',
          resp_tool_calls =
            [\<lparr>call_name = ''get_task'',
               call_arguments = no_arguments\<lparr>arg_id := Some 999\<rparr>\<rparr>],
          resp_needs_confirmation = False,
          resp_confirmation_message = None\<rparr>
   \<and> execute_tool_calls_with_session
         [\<lparr>call_name = ''get_task'', call_arguments = no_arguments\<lparr>arg_id := Some 999\<rparr>\<rparr>]
         db confirm =
       (db, [\<lparr>result = ''error'', message = ''Task with ID 999 not found'',
              data = None, tool_name = ''get_task''\<rparr>])
   \<and> format_results [\<lparr>result = ''error'', message = ''Task with ID 999 not found'',
              data = None, tool_name = ''get_task''\<rparr>] =
       Inr ''Sorry, I encountered an error: Task with ID 999 not found''
   \<and> handle_user_request ''What is task #999?'' confirm db =
       (db, Inr ''Sorry, I encountered an error: Task with ID 999 not found'')
   \<and> \<not> py_in ''Would you like me to list all tasks so you can find the right one?''
         ''Sorry, I encountered an error: Task with ID 999 not found''"
proof -
  have row: "get_task_row db (Some 999) = None"
    using assms by (simp add: get_task_row_def)
  have g: "get_task db (no_arguments\<lparr>arg_id := Some 999\<rparr>) =
      (db, Inl (task_not_found (Some 999)))"
    by (rule absent_task_raises(2) [OF row])
      (simp_all add: no_arguments_def sqlite_bindable_Some sqlite_integer_999)
  have x: "execute_tool db ''get_task'' (no_arguments\<lparr>arg_id := Some 999\<rparr>) =
      (db, \<lparr>result = ''error'', message = ''Task with ID 999 not found'', data = None\<rparr>)"
    using execute_tool_raises [OF registered_task_tools(2) g]
    by (simp add: task_not_found_def py_str_key_def py_str_int_999)
  have n: "\<not> needs_confirmation ''get_task''"
    by (simp add: needs_confirmation_def)
  have e: "execute_tool_calls_with_session
         [\<lparr>call_name = ''get_task'', call_arguments = no_arguments\<lparr>arg_id := Some 999\<rparr>\<rparr>]
         db confirm =
       (db, [\<lparr>result = ''error'', message = ''Task with ID 999 not found'',
              data = None, tool_name = ''get_task''\<rparr>])" for confirm
    using n by (simp add: x)
  have f: "format_results [\<lparr>result = ''error'', message = ''Task with ID 999 not found'',
              data = None, tool_name = ''get_task''\<rparr>] =
       Inr ''Sorry, I encountered an error: Task with ID 999 not found''"
    by (simp add: format_results_def format_result_def)
  have h: "handle_user_request ''What is task #999?'' confirm db =
       (db, Inr ''Sorry, I encountered an error: Task with ID 999 not found'')"
    by (simp add: handle_user_request_def process_request_what_is_999 x f)
  show ?thesis
    by (rule conjI [OF process_request_what_is_999
          conjI [OF e conjI [OF f conjI [OF h reply_lacks_suggestion]]]])
qed

theorem missing_task_999_reply_witness:
  "find (\<lambda>t. task_id t = 999) (tasks empty_session) = None
   \<and> handle_user_request ''What is task #999?'' True empty_session =
       (empty_session, Inr ''Sorry, I encountered an error: Task with ID 999 not found'')"
  using missing_task_999_reply [of empty_session True]
  by (simp add: empty_session_def)

end
